theory Spec2Isabelle
  imports Main
begin

section \<open>Data model of the WAMP Application Page resource\<close>

text \<open>
  The development embeds \<^verbatim>\<open>crossbar/webservice/wap.py\<close>: the Twisted Web resource
  \<^verbatim>\<open>WapResource\<close> that turns an HTTP request into a WAMP call and renders the result
  through a Jinja2 template.

  Conventions of the embedding.
  \<^item> \<^verbatim>\<open>bytes\<close> is a list of 8-bit characters. A Python \<^verbatim>\<open>str\<close> is represented by its
    UTF-8 encoding, so \<^verbatim>\<open>s.encode('utf8')\<close> keeps the representation and
    \<^verbatim>\<open>b.decode('utf-8')\<close> succeeds exactly on well-formed UTF-8 and raises otherwise.
  \<^item> An exception is a value: a function that can raise returns a sum, \<open>Inl\<close> the
    exception.
  \<^item> Mutation is state passing: a method takes \<open>self\<close> and the request and returns them
    updated. Logging is not modelled.
  \<^item> A leading underscore of a Python name is dropped (\<^verbatim>\<open>_render_error\<close> is
    \<open>render_error\<close>), since an Isabelle name starts with a letter.
\<close>

type_synonym bytes = string
type_synonym str = string

datatype py_exception =
    NotFound
  | MethodNotAllowed
  | UnicodeDecodeError
  | UnsupportedMethod
  | AttributeError
  | Exception str

text \<open>
  An \<^verbatim>\<open>ApplicationSession(ComponentConfig(realm=..., extra=None))\<close> object. \<open>sid\<close> is
  the identity of the object (two sessions built for the same realm are still two
  objects); \<open>realm\<close> is the realm of its \<^verbatim>\<open>ComponentConfig\<close>.
\<close>

record session =
  sid :: nat
  realm :: "str option"

text \<open>
  The value a WAMP call returns: the source expects a \<^verbatim>\<open>dict\<close>, and formats
  \<^verbatim>\<open>type(result)\<close> when rendering fails, so values that are not a mapping are kept.
\<close>

datatype wamp_result =
    RNone
  | RText str
  | RMapping "(str \<times> str) list"

text \<open>
  A compiled Jinja2 template is known only through \<^verbatim>\<open>template.render(result)\<close>, which
  returns the page or raises: \<open>Inl m\<close> is an exception \<open>e\<close> with \<^verbatim>\<open>str(e) = m\<close>.
\<close>

type_synonym template = "wamp_result \<Rightarrow> str + str"

type_synonym kwargs = "(str \<times> str) list"

text \<open>
  How the Deferred returned by \<^verbatim>\<open>session.call\<close> fires: with the result, or with a
  failure. Of the failure the resource reads \<^verbatim>\<open>error.value.error\<close> only: \<open>Some e\<close> is a
  failure whose exception has the attribute \<^verbatim>\<open>error\<close> with value \<open>e\<close> (autobahn's
  ApplicationError), \<open>None\<close> one whose exception has no such attribute (for instance
  TransportLost).
\<close>

datatype call_completion =
    Success wamp_result
  | Failure "str option"

text \<open>
  The calls the resource makes on its collaborators, as events:
  \<^verbatim>\<open>_router_session_factory.add(session, ...)\<close>, \<^verbatim>\<open>_map_adapter.match(full_path)\<close> and
  \<^verbatim>\<open>session.call(procedure, **kwargs)\<close>.
\<close>

datatype event =
    EvAdd session
  | EvMatch str
  | EvCall session str kwargs

text \<open>
  The part of the router worker the resource touches: the routers by realm
  (\<^verbatim>\<open>_router_factory\<close>), the sessions added to \<^verbatim>\<open>_router_session_factory\<close> (session,
  router argument, authrole; \<open>NoRouter\<close> where the call passes none), the calls placed so
  far, the backend that answers a call (it raises at once, or gives the completion of
  the Deferred), and the counter that stamps new session objects. \<open>call_trace\<close> keeps
  the events of all these calls in the order in which they were made.
\<close>

datatype router_arg =
    NoRouter
  | Router "str option"

record worker =
  router_factory :: "str option \<rightharpoonup> str"
  router_session_factory :: "(session \<times> router_arg \<times> str) list"
  session_calls :: "(session \<times> str \<times> kwargs) list"
  wamp_backend :: "session \<Rightarrow> str \<Rightarrow> kwargs \<Rightarrow> py_exception + call_completion"
  next_object :: nat
  call_trace :: "event list"

text \<open>
  \<^verbatim>\<open>WapResource\<close>. \<open>default_session\<close> is optional because \<^verbatim>\<open>render_GET\<close> tests the
  session it resolved for truth (\<^verbatim>\<open>if not session\<close>): \<open>None\<close> stands for a falsy
  value in that slot. \<open>map_adapter\<close> is the bound werkzeug \<^verbatim>\<open>MapAdapter\<close>, known through
  \<^verbatim>\<open>match(full_path)\<close>: it returns the endpoint (procedure, template) with the path
  variables, or raises.
\<close>

record wap =
  wworker :: worker
  realm_name :: "str option"
  session_cache :: "bytes \<rightharpoonup> session"
  default_session :: "session option"
  map_adapter :: "str \<Rightarrow> py_exception + ((str \<times> template) \<times> kwargs)"

text \<open>
  The Twisted request: what the client sent (\<open>rmethod\<close>, \<open>uri\<close>,
  \<open>received_cookies\<close>), the attribute \<^verbatim>\<open>request.template\<close> that \<^verbatim>\<open>render_GET\<close> sets, and
  the response so far: the status code (200 until set), the chunks written, and how
  often \<^verbatim>\<open>finish()\<close> was called.
\<close>

record request =
  rmethod :: bytes
  uri :: bytes
  received_cookies :: "bytes \<rightharpoonup> bytes"
  rtemplate :: "template option"
  code :: nat
  written :: "bytes list"
  finish_calls :: nat

definition setResponseCode :: "nat \<Rightarrow> request \<Rightarrow> request" where
  "setResponseCode c request = request\<lparr>code := c\<rparr>"

definition request_write :: "bytes \<Rightarrow> request \<Rightarrow> request" where
  "request_write b request = request\<lparr>written := written request @ [b]\<rparr>"

definition request_finish :: "request \<Rightarrow> request" where
  "request_finish request = request\<lparr>finish_calls := Suc (finish_calls request)\<rparr>"

section \<open>Text: UTF-8 and HTML escaping\<close>

definition cont_byte :: "nat \<Rightarrow> bool" where
  "cont_byte b = (0x80 \<le> b \<and> b \<le> 0xBF)"

text \<open>The second byte of a three-byte and of a four-byte sequence: no overlong form, no
  surrogate, nothing above U+10FFFF.\<close>

definition second_of_3 :: "nat \<Rightarrow> nat \<Rightarrow> bool" where
  "second_of_3 a b =
     (if a = 0xE0 then 0xA0 \<le> b \<and> b \<le> 0xBF
      else if a = 0xED then 0x80 \<le> b \<and> b \<le> 0x9F
      else cont_byte b)"

definition second_of_4 :: "nat \<Rightarrow> nat \<Rightarrow> bool" where
  "second_of_4 a b =
     (if a = 0xF0 then 0x90 \<le> b \<and> b \<le> 0xBF
      else if a = 0xF4 then 0x80 \<le> b \<and> b \<le> 0x8F
      else cont_byte b)"

fun utf8_wf :: "nat list \<Rightarrow> bool" where
  "utf8_wf [] = True"
| "utf8_wf (a # bs) =
     (if a < 0x80 then utf8_wf bs
      else if 0xC2 \<le> a \<and> a \<le> 0xDF then
        (case bs of b # r \<Rightarrow> cont_byte b \<and> utf8_wf r | _ \<Rightarrow> False)
      else if 0xE0 \<le> a \<and> a \<le> 0xEF then
        (case bs of b # c # r \<Rightarrow> second_of_3 a b \<and> cont_byte c \<and> utf8_wf r | _ \<Rightarrow> False)
      else if 0xF0 \<le> a \<and> a \<le> 0xF4 then
        (case bs of b # c # d # r \<Rightarrow>
           second_of_4 a b \<and> cont_byte c \<and> cont_byte d \<and> utf8_wf r | _ \<Rightarrow> False)
      else False)"

definition decode_utf8 :: "bytes \<Rightarrow> py_exception + str" where
  "decode_utf8 b = (if utf8_wf (map of_char b) then Inr b else Inl UnicodeDecodeError)"

definition encode_utf8 :: "str \<Rightarrow> bytes" where
  "encode_utf8 s = s"

text \<open>\<^verbatim>\<open>werkzeug.utils.escape\<close>: the four replacements, \<^verbatim>\<open>&\<close> first.\<close>

definition escape_char :: "char \<Rightarrow> str" where
  "escape_char c =
     (if c = CHR ''&'' then ''&amp;''
      else if c = CHR ''<'' then ''&lt;''
      else if c = CHR ''>'' then ''&gt;''
      else if c = CHR 0x22 then ''&quot;''
      else [c])"

definition escape :: "str \<Rightarrow> str" where
  "escape s = concat (map escape_char s)"

definition nl :: str where
  "nl = [CHR 0x0A]"

definition error_shell_head :: str where
  "error_shell_head =
     nl @ ''            <html>'' @
     nl @ ''                <title>API Error</title>'' @
     nl @ ''                <body>'' @
     nl @ ''                    <h3 style='' @ [CHR 0x22] @ ''color: #f00'' @ [CHR 0x22] @
          ''>Crossbar WAMP Application Page Error</h3>'' @
     nl @ ''                    <pre>''"

definition error_shell_tail :: str where
  "error_shell_tail =
     ''</pre>'' @
     nl @ ''                </body>'' @
     nl @ ''            </html>'' @
     nl @ ''        ''"

definition render_error :: "str \<Rightarrow> bytes" where
  "render_error message = encode_utf8 (error_shell_head @ escape message @ error_shell_tail)"

section \<open>Collaborators of the resource\<close>

text \<open>
  Modelled from the spec: \<^verbatim>\<open>RouterSessionFactory.add\<close> (crossbar/router/session.py) is
  not among the sources. The spec gives the transport's \<^verbatim>\<open>registerSession(handle, role)\<close>
  as an operation that registers the handle and returns nothing; the model records the
  registration, with the router argument as the call site passes it.
\<close>

definition factory_add :: "session \<Rightarrow> router_arg \<Rightarrow> str \<Rightarrow> worker \<Rightarrow> worker" where
  "factory_add s router authrole wk =
     wk\<lparr>router_session_factory := router_session_factory wk @ [(s, router, authrole)],
        call_trace := call_trace wk @ [EvAdd s]\<rparr>"

text \<open>A new session object takes the next free identity.\<close>

definition ApplicationSession :: "str option \<Rightarrow> worker \<Rightarrow> session \<times> worker" where
  "ApplicationSession r wk =
     (\<lparr>sid = next_object wk, realm = r\<rparr>, wk\<lparr>next_object := Suc (next_object wk)\<rparr>)"

text \<open>\<^verbatim>\<open>session.call(procedure, **kwargs)\<close>: the call is recorded, and the backend says
  whether it raises at once or how its Deferred completes.\<close>

definition session_call ::
  "session \<Rightarrow> str \<Rightarrow> kwargs \<Rightarrow> worker \<Rightarrow> (py_exception + call_completion) \<times> worker" where
  "session_call s procedure kw wk =
     (wamp_backend wk s procedure kw,
      wk\<lparr>session_calls := session_calls wk @ [(s, procedure, kw)],
         call_trace := call_trace wk @ [EvCall s procedure kw]\<rparr>)"

text \<open>\<^verbatim>\<open>self._map_adapter.match(full_path)\<close>: the adapter answers, and the call is
  recorded.\<close>

definition adapter_match ::
  "wap \<Rightarrow> str \<Rightarrow> (py_exception + ((str \<times> template) \<times> kwargs)) \<times> wap" where
  "adapter_match self full_path =
     (map_adapter self full_path,
      self\<lparr>wworker := (wworker self)
             \<lparr>call_trace := call_trace (wworker self) @ [EvMatch full_path]\<rparr>\<rparr>)"

text \<open>\<^verbatim>\<open>'{}'.format(type(result))\<close>.\<close>

definition type_repr :: "wamp_result \<Rightarrow> str" where
  "type_repr result =
     (case result of
        RNone \<Rightarrow> ''<class '' @ [CHR 0x27] @ ''NoneType'' @ [CHR 0x27] @ ''>''
      | RText _ \<Rightarrow> ''<class '' @ [CHR 0x27] @ ''str'' @ [CHR 0x27] @ ''>''
      | RMapping _ \<Rightarrow> ''<class '' @ [CHR 0x27] @ ''dict'' @ [CHR 0x27] @ ''>'')"

section \<open>The callbacks of the call\<close>

text \<open>Reading \<^verbatim>\<open>request.template\<close> before \<^verbatim>\<open>render_GET\<close> has set it raises
  AttributeError, inside the \<^verbatim>\<open>try\<close>.\<close>

definition no_template_attribute :: str where
  "no_template_attribute =
     [CHR 0x27] @ ''Request'' @ [CHR 0x27] @ '' object has no attribute '' @
     [CHR 0x27] @ ''template'' @ [CHR 0x27]"

definition template_render :: "request \<Rightarrow> wamp_result \<Rightarrow> str + str" where
  "template_render request result =
     (case rtemplate request of
        None \<Rightarrow> Inl no_template_attribute
      | Some t \<Rightarrow> t result)"

definition render_error_message :: "wamp_result \<Rightarrow> str \<Rightarrow> str" where
  "render_error_message result e =
     ''WabResource render error for WAMP result of type '' @ [CHR 0x22] @
     type_repr result @ [CHR 0x22] @ '': '' @ e"

definition after_call_success :: "wap \<Rightarrow> wamp_result \<Rightarrow> request \<Rightarrow> request" where
  "after_call_success self result request =
     request_finish
       (case template_render request result of
          Inl e \<Rightarrow>
            (let emsg = render_error_message result e
             in request_write (render_error emsg) (setResponseCode 500 request))
        | Inr rendered_html \<Rightarrow> request_write (encode_utf8 rendered_html) request)"

text \<open>
  \<^verbatim>\<open>_after_call_error\<close> sets the status first and then evaluates
  \<^verbatim>\<open>error.value.error\<close> for the argument of \<^verbatim>\<open>_render_error\<close>: for a failure without that
  attribute this raises AttributeError, and the errback ends before \<^verbatim>\<open>request.write\<close>
  and \<^verbatim>\<open>request.finish\<close>. The result is the exception raised, if any, and the request.
\<close>

definition after_call_error ::
  "wap \<Rightarrow> str option \<Rightarrow> request \<Rightarrow> py_exception option \<times> request" where
  "after_call_error self error request =
     (let request1 = setResponseCode 500 request
      in case error of
           None \<Rightarrow> (Some AttributeError, request1)
         | Some message \<Rightarrow>
             (None, request_finish (request_write (render_error message) request1)))"

section \<open>\<^verbatim>\<open>render_GET\<close>\<close>

datatype render_return =
    NOT_DONE_YET call_completion
  | Rendered bytes
  | Raised py_exception

text \<open>
  Lines 185 to 200: the session of the request. \<^verbatim>\<open>if cookie:\<close> is false for a missing
  cookie and for an empty one.
\<close>

definition resolve_session :: "wap \<Rightarrow> request \<Rightarrow> session option \<times> wap" where
  "resolve_session self request =
     (case received_cookies request ''session_cookie'' of
        None \<Rightarrow> (default_session self, self)
      | Some cookie \<Rightarrow>
          if cookie = [] then (default_session self, self)
          else
            (case session_cache self cookie of
               Some session \<Rightarrow> (Some session, self)
             | None \<Rightarrow>
                 (let (session, wk) = ApplicationSession (realm_name self) (wworker self);
                      wk' = factory_add session NoRouter ''anonymous'' wk
                  in (Some session,
                      self\<lparr>wworker := wk',
                           session_cache := (session_cache self)(cookie \<mapsto> session)\<rparr>))))"

text \<open>The three \<^verbatim>\<open>except\<close> clauses of the \<^verbatim>\<open>try\<close>, in their order.\<close>

definition handle_exception ::
  "py_exception \<Rightarrow> wap \<Rightarrow> request \<Rightarrow> render_return \<times> wap \<times> request" where
  "handle_exception e self request =
     (if e = NotFound then
        (Rendered (render_error ''path not found [werkzeug.routing.MapAdapter.match]''),
         self, setResponseCode 404 request)
      else if e = MethodNotAllowed then
        (Rendered (render_error ''method not allowed [werkzeug.routing.MapAdapter.match]''),
         self, setResponseCode 511 request)
      else
        (Raised e, self,
         request_write (render_error ''unknown error [werkzeug.routing.MapAdapter.match]'')
           (setResponseCode 500 request)))"

text \<open>
  The \<^verbatim>\<open>try\<close> block covers the match, the assignment of \<^verbatim>\<open>request.template\<close> and the
  call. The completion of the Deferred travels with \<open>NOT_DONE_YET\<close>: the callbacks added
  by \<^verbatim>\<open>addCallbacks\<close> run on it.
\<close>

definition render_GET :: "wap \<Rightarrow> request \<Rightarrow> render_return \<times> wap \<times> request" where
  "render_GET self request =
     (case resolve_session self request of
        (None, self1) \<Rightarrow>
          (Rendered (render_error ''could not call procedure - no session''), self1, request)
      | (Some session, self1) \<Rightarrow>
          (case decode_utf8 (uri request) of
             Inl e \<Rightarrow> (Raised e, self1, request)
           | Inr full_path \<Rightarrow>
               (let (m, self2) = adapter_match self1 full_path
                in case m of
                     Inl e \<Rightarrow> handle_exception e self2 request
                   | Inr ((procedure, tmpl), kw) \<Rightarrow>
                       (let request1 = request\<lparr>rtemplate := Some tmpl\<rparr>;
                            (d, wk) = session_call session procedure kw (wworker self2);
                            self3 = self2\<lparr>wworker := wk\<rparr>
                        in case d of
                             Inl e \<Rightarrow> handle_exception e self3 request1
                           | Inr completion \<Rightarrow>
                               (NOT_DONE_YET completion, self3, request1)))))"

section \<open>Construction of the resource\<close>

record route =
  route_path :: str
  route_method :: str
  route_call :: str
  route_render :: str

record config =
  wamp_realm :: "str option"
  templates :: str
  routes :: "route list"

record rule =
  rule_url :: str
  rule_methods :: "str list"
  rule_endpoint :: "str \<times> template"

text \<open>The loop of \<^verbatim>\<open>__init__\<close> over the configured routes; \<^verbatim>\<open>env.get_template\<close> may
  raise, which ends the construction.\<close>

fun add_routes ::
  "(str \<Rightarrow> py_exception + template) \<Rightarrow> str \<Rightarrow> route list \<Rightarrow> py_exception + rule list" where
  "add_routes get_template path [] = Inr []"
| "add_routes get_template path (r # rest) =
     (case get_template (route_render r) of
        Inl e \<Rightarrow> Inl e
      | Inr t \<Rightarrow>
          (case add_routes get_template path rest of
             Inl e \<Rightarrow> Inl e
           | Inr rules \<Rightarrow>
               Inr (\<lparr>rule_url = ''/'' @ path @ route_path r,
                     rule_methods = [route_method r],
                     rule_endpoint = (route_call r, t)\<rparr> # rules)))"

text \<open>
  \<^verbatim>\<open>WapResource.__init__\<close>. The template loader and werkzeug's \<^verbatim>\<open>Map(...).bind('/')\<close> are
  parameters. The default session is built and added to the session factory, with the
  router of the realm and the role anonymous, before anything can raise.
\<close>

definition WapResource_init ::
  "(str \<Rightarrow> py_exception + template) \<Rightarrow>
   (rule list \<Rightarrow> str \<Rightarrow> py_exception + ((str \<times> template) \<times> kwargs)) \<Rightarrow>
   worker \<Rightarrow> config \<Rightarrow> str \<Rightarrow> py_exception + wap" where
  "WapResource_init get_template bind wk cfg path =
     (let router = router_factory wk (wamp_realm cfg);
          (s, wk1) = ApplicationSession (wamp_realm cfg) wk;
          wk2 = factory_add s (Router router) ''anonymous'' wk1
      in case add_routes get_template path (routes cfg) of
           Inl e \<Rightarrow> Inl e
         | Inr rules \<Rightarrow>
             Inr \<lparr>wworker = wk2,
                  realm_name = wamp_realm cfg,
                  session_cache = Map.empty,
                  default_session = Some s,
                  map_adapter = bind rules\<rparr>)"

section \<open>The hosting framework\<close>

text \<open>
  What twisted.web does around the resource. \<^verbatim>\<open>Resource.render\<close> calls the method
  \<^verbatim>\<open>render_METHOD\<close> for the method of the request and raises UnsupportedMethod when the
  class has none. \<^verbatim>\<open>WapResource\<close> defines \<^verbatim>\<open>render_GET\<close> only, and inherits the base
  class's \<^verbatim>\<open>render_HEAD\<close>, which returns \<^verbatim>\<open>self.render_GET(request)\<close>.
\<close>

definition render_HEAD :: "wap \<Rightarrow> request \<Rightarrow> render_return \<times> wap \<times> request" where
  "render_HEAD self request = render_GET self request"

definition Resource_render :: "wap \<Rightarrow> request \<Rightarrow> render_return \<times> wap \<times> request" where
  "Resource_render self request =
     (if rmethod request = ''GET'' then render_GET self request
      else if rmethod request = ''HEAD'' then render_HEAD self request
      else (Raised UnsupportedMethod, self, request))"

text \<open>The pages the site writes by itself: for a method the resource does not support,
  and for an exception that leaves the resource.\<close>

record site =
  unsupported_page :: "request \<Rightarrow> bytes"
  failure_page :: "py_exception \<Rightarrow> bytes"

definition unsupported_code :: "request \<Rightarrow> nat" where
  "unsupported_code request =
     (if rmethod request = ''GET'' \<or> rmethod request = ''HEAD'' \<or> rmethod request = ''POST''
      then 405 else 501)"

definition processingFailed :: "site \<Rightarrow> py_exception \<Rightarrow> request \<Rightarrow> request" where
  "processingFailed st reason request =
     request_finish (request_write (failure_page st reason) (setResponseCode 500 request))"

text \<open>
  The Deferred of the call fires: \<^verbatim>\<open>addCallbacks\<close> registered the two callbacks with
  the request as their extra argument. An exception that leaves a callback stays in the
  Deferred; nothing else runs on the request.
\<close>

definition deferred_fire :: "wap \<Rightarrow> call_completion \<Rightarrow> request \<Rightarrow> request" where
  "deferred_fire self completion request =
     (case completion of
        Success result \<Rightarrow> after_call_success self result request
      | Failure error \<Rightarrow> snd (after_call_error self error request))"

text \<open>
  One request from arrival to the end of its response: \<^verbatim>\<open>Request.process\<close> renders the
  resource; bytes are written (not for HEAD) and the request finished; \<open>NOT_DONE_YET\<close>
  leaves the request to the callbacks; an exception goes to \<^verbatim>\<open>processingFailed\<close>.
\<close>

definition Request_process :: "site \<Rightarrow> wap \<Rightarrow> request \<Rightarrow> wap \<times> request" where
  "Request_process st self request =
     (case Resource_render self request of
        (NOT_DONE_YET completion, self', request') \<Rightarrow>
          (self', deferred_fire self' completion request')
      | (Rendered body, self', request') \<Rightarrow>
          (self',
           request_finish
             (request_write (if rmethod request' = ''HEAD'' then [] else body) request'))
      | (Raised e, self', request') \<Rightarrow>
          (self',
           if e = UnsupportedMethod then
             request_finish
               (request_write (unsupported_page st request')
                  (setResponseCode (unsupported_code request') request'))
           else processingFailed st e request'))"

section \<open>A concrete resource\<close>

text \<open>
  A template that behaves as \<^verbatim>\<open>Hello {{name}}\<close> under autoescape: a mapping gives the
  greeting with the escaped value of \<^verbatim>\<open>name\<close> (nothing for a missing key); a value
  that is no mapping makes \<^verbatim>\<open>render\<close> raise.
\<close>

definition hello_template :: template where
  "hello_template result =
     (case result of
        RMapping kv \<Rightarrow>
          Inr (''Hello '' @ (case map_of kv ''name'' of None \<Rightarrow> [] | Some v \<Rightarrow> escape v))
      | RNone \<Rightarrow>
          Inl ([CHR 0x27] @ ''NoneType'' @ [CHR 0x27] @ '' object is not iterable'')
      | RText _ \<Rightarrow>
          Inl ''dictionary update sequence element #0 has length 1; 2 is required'')"

text \<open>A worker whose backend answers \<^verbatim>\<open>com.example.hello\<close> with Ann's name, fails
  \<^verbatim>\<open>com.example.boom\<close> with the error boom, fails \<^verbatim>\<open>com.example.lost\<close> with an
  exception that has no attribute \<^verbatim>\<open>error\<close>, and raises on anything else.\<close>

definition example_backend :: "session \<Rightarrow> str \<Rightarrow> kwargs \<Rightarrow> py_exception + call_completion" where
  "example_backend s procedure kw =
     (if procedure = ''com.example.hello'' then Inr (Success (RMapping [(''name'', ''Ann'')]))
      else if procedure = ''com.example.none'' then Inr (Success RNone)
      else if procedure = ''com.example.boom'' then Inr (Failure (Some ''boom''))
      else if procedure = ''com.example.lost'' then Inr (Failure None)
      else Inl (Exception ''no transport''))"

definition example_worker :: worker where
  "example_worker =
     \<lparr>router_factory = [Some ''realm1'' \<mapsto> ''router1''],
      router_session_factory = [],
      session_calls = [],
      wamp_backend = example_backend,
      next_object = 0,
      call_trace = []\<rparr>"

text \<open>A stand-in for the bound map: exact paths, matched for the method GET as
  \<^verbatim>\<open>match(full_path)\<close> does by default.\<close>

fun example_bind :: "rule list \<Rightarrow> str \<Rightarrow> py_exception + ((str \<times> template) \<times> kwargs)" where
  "example_bind [] full_path = Inl NotFound"
| "example_bind (r # rules) full_path =
     (if rule_url r = full_path then
        (if ''GET'' \<in> set (rule_methods r) then Inr (rule_endpoint r, [])
         else (case example_bind rules full_path of
                 Inl NotFound \<Rightarrow> Inl MethodNotAllowed
               | other \<Rightarrow> other))
      else example_bind rules full_path)"

definition example_get_template :: "str \<Rightarrow> py_exception + template" where
  "example_get_template name =
     (if name = ''hello.html'' then Inr hello_template
      else Inl (Exception ''template not found''))"

definition example_config :: config where
  "example_config =
     \<lparr>wamp_realm = Some ''realm1'',
      templates = ''templates'',
      routes =
        [\<lparr>route_path = ''/hello'', route_method = ''GET'',
          route_call = ''com.example.hello'', route_render = ''hello.html''\<rparr>,
         \<lparr>route_path = ''/none'', route_method = ''GET'',
          route_call = ''com.example.none'', route_render = ''hello.html''\<rparr>,
         \<lparr>route_path = ''/boom'', route_method = ''GET'',
          route_call = ''com.example.boom'', route_render = ''hello.html''\<rparr>,
         \<lparr>route_path = ''/down'', route_method = ''GET'',
          route_call = ''com.example.down'', route_render = ''hello.html''\<rparr>,
         \<lparr>route_path = ''/lost'', route_method = ''GET'',
          route_call = ''com.example.lost'', route_render = ''hello.html''\<rparr>,
         \<lparr>route_path = ''/submit'', route_method = ''POST'',
          route_call = ''com.example.hello'', route_render = ''hello.html''\<rparr>]\<rparr>"

definition example_session :: session where
  "example_session = \<lparr>sid = 0, realm = Some ''realm1''\<rparr>"

definition example_rules :: "rule list" where
  "example_rules =
     [\<lparr>rule_url = ''/wap/hello'', rule_methods = [''GET''],
       rule_endpoint = (''com.example.hello'', hello_template)\<rparr>,
      \<lparr>rule_url = ''/wap/none'', rule_methods = [''GET''],
       rule_endpoint = (''com.example.none'', hello_template)\<rparr>,
      \<lparr>rule_url = ''/wap/boom'', rule_methods = [''GET''],
       rule_endpoint = (''com.example.boom'', hello_template)\<rparr>,
      \<lparr>rule_url = ''/wap/down'', rule_methods = [''GET''],
       rule_endpoint = (''com.example.down'', hello_template)\<rparr>,
      \<lparr>rule_url = ''/wap/lost'', rule_methods = [''GET''],
       rule_endpoint = (''com.example.lost'', hello_template)\<rparr>,
      \<lparr>rule_url = ''/wap/submit'', rule_methods = [''POST''],
       rule_endpoint = (''com.example.hello'', hello_template)\<rparr>]"

definition example_wap :: wap where
  "example_wap =
     \<lparr>wworker =
        example_worker\<lparr>router_session_factory :=
                         [(example_session, Router (Some ''router1''), ''anonymous'')],
                       next_object := 1,
                       call_trace := [EvAdd example_session]\<rparr>,
      realm_name = Some ''realm1'',
      session_cache = Map.empty,
      default_session = Some example_session,
      map_adapter = example_bind example_rules\<rparr>"

definition example_request :: "bytes \<Rightarrow> bytes \<Rightarrow> (bytes \<rightharpoonup> bytes) \<Rightarrow> request" where
  "example_request m u cookies =
     \<lparr>rmethod = m, uri = u, received_cookies = cookies, rtemplate = None,
      code = 200, written = [], finish_calls = 0\<rparr>"

definition example_site :: site where
  "example_site =
     \<lparr>unsupported_page = (\<lambda>request. ''Method Not Allowed''),
      failure_page = (\<lambda>reason. ''Processing Failed'')\<rparr>"

text \<open>The class of a status code: 4xx is a client error.\<close>

definition client_error :: "nat \<Rightarrow> bool" where
  "client_error c = (400 \<le> c \<and> c < 500)"

section \<open>Basic facts\<close>

lemma code_ops [simp]:
  "code (setResponseCode c r) = c"
  "code (request_write b r) = code r"
  "code (request_finish r) = code r"
  by (simp_all add: setResponseCode_def request_write_def request_finish_def)

lemma written_ops [simp]:
  "written (setResponseCode c r) = written r"
  "written (request_write b r) = written r @ [b]"
  "written (request_finish r) = written r"
  by (simp_all add: setResponseCode_def request_write_def request_finish_def)

lemma finish_calls_ops [simp]:
  "finish_calls (setResponseCode c r) = finish_calls r"
  "finish_calls (request_write b r) = finish_calls r"
  "finish_calls (request_finish r) = Suc (finish_calls r)"
  by (simp_all add: setResponseCode_def request_write_def request_finish_def)

lemma rmethod_ops [simp]:
  "rmethod (setResponseCode c r) = rmethod r"
  "rmethod (request_write b r) = rmethod r"
  "rmethod (request_finish r) = rmethod r"
  by (simp_all add: setResponseCode_def request_write_def request_finish_def)

lemma resolve_session_cases:
  obtains (default) "received_cookies request ''session_cookie'' = None \<or>
                     received_cookies request ''session_cookie'' = Some []"
                    "resolve_session self request = (default_session self, self)"
  | (cached) cookie s where "received_cookies request ''session_cookie'' = Some cookie" "cookie \<noteq> []"
                    "session_cache self cookie = Some s"
                    "resolve_session self request = (Some s, self)"
  | (fresh) cookie where "received_cookies request ''session_cookie'' = Some cookie" "cookie \<noteq> []"
                    "session_cache self cookie = None"
                    "resolve_session self request =
                       (Some \<lparr>sid = next_object (wworker self), realm = realm_name self\<rparr>,
                        self\<lparr>wworker := (wworker self)
                               \<lparr>next_object := Suc (next_object (wworker self)),
                                router_session_factory := router_session_factory (wworker self) @
                                  [(\<lparr>sid = next_object (wworker self), realm = realm_name self\<rparr>,
                                    NoRouter, ''anonymous'')],
                                call_trace := call_trace (wworker self) @
                                  [EvAdd \<lparr>sid = next_object (wworker self), realm = realm_name self\<rparr>]\<rparr>,
                             session_cache := (session_cache self)
                               (cookie \<mapsto> \<lparr>sid = next_object (wworker self), realm = realm_name self\<rparr>)\<rparr>)"
proof (cases "received_cookies request ''session_cookie''")
  case None
  then show ?thesis using default by (simp add: resolve_session_def)
next
  case (Some cookie)
  show ?thesis
  proof (cases "cookie = []")
    case True
    with Some show ?thesis using default by (simp add: resolve_session_def)
  next
    case False
    show ?thesis
    proof (cases "session_cache self cookie")
      case None
      with Some False show ?thesis using fresh [of cookie]
        by (simp add: resolve_session_def ApplicationSession_def factory_add_def)
    next
      case (Some s)
      with \<open>received_cookies request ''session_cookie'' = Some cookie\<close> False show ?thesis
        using cached [of cookie s] by (simp add: resolve_session_def)
    qed
  qed
qed

lemma resolve_session_keeps:
  "map_adapter (snd (resolve_session self request)) = map_adapter self"
  "default_session (snd (resolve_session self request)) = default_session self"
  "realm_name (snd (resolve_session self request)) = realm_name self"
  "session_calls (wworker (snd (resolve_session self request))) = session_calls (wworker self)"
  "wamp_backend (wworker (snd (resolve_session self request))) = wamp_backend (wworker self)"
  by (rule resolve_session_cases [where self = self and request = request]; simp)+

lemma resolve_session_usable:
  assumes "default_session self \<noteq> None"
  shows "fst (resolve_session self request) \<noteq> None"
  by (rule resolve_session_cases [where self = self and request = request]) (use assms in auto)

lemma resolve_session_no_cookie:
  assumes "received_cookies request ''session_cookie'' = None"
  shows "resolve_session self request = (default_session self, self)"
  using assms by (simp add: resolve_session_def)

lemma adapter_match_sel [simp]:
  "fst (adapter_match self p) = map_adapter self p"
  "session_cache (snd (adapter_match self p)) = session_cache self"
  "default_session (snd (adapter_match self p)) = default_session self"
  "router_session_factory (wworker (snd (adapter_match self p))) =
     router_session_factory (wworker self)"
  "session_calls (wworker (snd (adapter_match self p))) = session_calls (wworker self)"
  "wamp_backend (wworker (snd (adapter_match self p))) = wamp_backend (wworker self)"
  "call_trace (wworker (snd (adapter_match self p))) = call_trace (wworker self) @ [EvMatch p]"
  by (simp_all add: adapter_match_def)

lemma session_call_sel [simp]:
  "fst (session_call s procedure kw wk) = wamp_backend wk s procedure kw"
  "router_session_factory (snd (session_call s procedure kw wk)) = router_session_factory wk"
  "session_calls (snd (session_call s procedure kw wk)) = session_calls wk @ [(s, procedure, kw)]"
  "call_trace (snd (session_call s procedure kw wk)) = call_trace wk @ [EvCall s procedure kw]"
  by (simp_all add: session_call_def)

lemma handle_exception_request:
  "finish_calls (snd (snd (handle_exception e self request))) = finish_calls request"
  "rmethod (snd (snd (handle_exception e self request))) = rmethod request"
  "fst (snd (handle_exception e self request)) = self"
  by (simp_all add: handle_exception_def)

lemma render_GET_no_session:
  assumes "resolve_session self request = (None, self1)"
  shows "render_GET self request =
           (Rendered (render_error ''could not call procedure - no session''), self1, request)"
  using assms by (simp add: render_GET_def)

lemma render_GET_undecodable:
  assumes "resolve_session self request = (Some s, self1)"
    and "decode_utf8 (uri request) = Inl e"
  shows "render_GET self request = (Raised e, self1, request)"
  using assms by (simp add: render_GET_def)

lemma render_GET_match_raises:
  assumes "resolve_session self request = (Some s, self1)"
    and "decode_utf8 (uri request) = Inr full_path"
    and "map_adapter self1 full_path = Inl e"
  shows "render_GET self request =
           handle_exception e (snd (adapter_match self1 full_path)) request"
  using assms by (simp add: render_GET_def adapter_match_def)

lemma render_GET_matched:
  assumes "resolve_session self request = (Some s, self1)"
    and "decode_utf8 (uri request) = Inr full_path"
    and "map_adapter self1 full_path = Inr ((procedure, t), kw)"
  shows "render_GET self request =
           (let self2 = snd (adapter_match self1 full_path);
                self3 = self2\<lparr>wworker := snd (session_call s procedure kw (wworker self2))\<rparr>;
                request1 = request\<lparr>rtemplate := Some t\<rparr>
            in case wamp_backend (wworker self1) s procedure kw of
                 Inl e \<Rightarrow> handle_exception e self3 request1
               | Inr completion \<Rightarrow> (NOT_DONE_YET completion, self3, request1))"
  using assms
  by (cases "wamp_backend (wworker self1) s procedure kw")
     (simp_all add: render_GET_def adapter_match_def session_call_def Let_def)

lemma render_GET_finish_calls:
  "finish_calls (snd (snd (render_GET self request))) = finish_calls request"
  by (simp add: render_GET_def session_call_def adapter_match_def Let_def
      handle_exception_request split: prod.splits option.splits sum.splits)

lemma Resource_render_finish_calls:
  "finish_calls (snd (snd (Resource_render self request))) = finish_calls request"
  by (simp add: Resource_render_def render_HEAD_def render_GET_finish_calls)

lemma after_call_success_finish_calls:
  "finish_calls (after_call_success self result request) = Suc (finish_calls request)"
  by (simp add: after_call_success_def Let_def split: sum.splits)

lemma after_call_error_with_text:
  "after_call_error self (Some message) request =
     (None, request_finish (request_write (render_error message) (setResponseCode 500 request)))"
  by (simp add: after_call_error_def)

lemma after_call_error_without_text:
  "after_call_error self None request = (Some AttributeError, setResponseCode 500 request)"
  by (simp add: after_call_error_def)

lemma deferred_fire_any_self:
  "deferred_fire self completion request = deferred_fire self' completion request"
  by (simp add: deferred_fire_def after_call_success_def after_call_error_def
      split: call_completion.splits)

text \<open>
  On every path but one the request is finished exactly once: by the framework when
  \<^verbatim>\<open>render_GET\<close> returns bytes or raises, by a callback when the call was placed. The
  exception is the failure without the attribute \<^verbatim>\<open>error\<close>.
\<close>

lemma Request_process_finish_calls:
  assumes "fst (Resource_render self request) \<noteq> NOT_DONE_YET (Failure None)"
  shows "finish_calls (snd (Request_process st self request)) = Suc (finish_calls request)"
proof -
  obtain ret self' request' where r: "Resource_render self request = (ret, self', request')"
    by (cases "Resource_render self request") auto
  have f: "finish_calls request' = finish_calls request"
    using Resource_render_finish_calls [of self request] r by simp
  show ?thesis
  proof (cases ret)
    case (NOT_DONE_YET completion)
    show ?thesis
    proof (cases completion)
      case (Success result)
      with NOT_DONE_YET r f show ?thesis
        by (simp add: Request_process_def deferred_fire_def after_call_success_finish_calls)
    next
      case (Failure error)
      with NOT_DONE_YET r assms obtain message where "error = Some message" by (cases error) auto
      with Failure NOT_DONE_YET r f show ?thesis
        by (simp add: Request_process_def deferred_fire_def after_call_error_with_text)
    qed
  next
    case (Rendered body)
    then show ?thesis using r f by (simp add: Request_process_def)
  next
    case (Raised e)
    then show ?thesis using r f by (simp add: Request_process_def processingFailed_def)
  qed
qed

lemma Request_process_called:
  assumes "rmethod request = ''GET''"
    and "resolve_session self request = (Some s, self1)"
    and "decode_utf8 (uri request) = Inr full_path"
    and "map_adapter self full_path = Inr ((procedure, t), kw)"
    and "wamp_backend (wworker self) s procedure kw = Inr completion"
  shows "snd (Request_process st self request) =
           deferred_fire self completion (request\<lparr>rtemplate := Some t\<rparr>)"
proof -
  have m: "map_adapter self1 full_path = Inr ((procedure, t), kw)"
    using resolve_session_keeps(1) [of self request] assms(2,4) by simp
  have b: "wamp_backend (wworker self1) s procedure kw = Inr completion"
    using resolve_session_keeps(5) [of self request] assms(2,5) by simp
  from render_GET_matched [OF assms(2,3) m] b
  obtain self3 where
    "render_GET self request = (NOT_DONE_YET completion, self3, request\<lparr>rtemplate := Some t\<rparr>)"
    by (simp add: Let_def)
  then have "snd (Request_process st self request) =
      deferred_fire self3 completion (request\<lparr>rtemplate := Some t\<rparr>)"
    using assms(1) by (simp add: Request_process_def Resource_render_def)
  also have "\<dots> = deferred_fire self completion (request\<lparr>rtemplate := Some t\<rparr>)"
    by (rule deferred_fire_any_self)
  finally show ?thesis .
qed



lemma render_GET_match_raises_default:
  assumes "default_session self \<noteq> None"
    and "decode_utf8 (uri request) = Inr full_path"
    and "map_adapter self full_path = Inl e"
  shows "render_GET self request =
           handle_exception e
             (snd (adapter_match (snd (resolve_session self request)) full_path)) request"
proof (cases "resolve_session self request")
  case (Pair so self1)
  from resolve_session_usable [OF assms(1), of request] Pair
  obtain s where s: "so = Some s" by auto
  have m: "map_adapter self1 full_path = Inl e"
    using resolve_session_keeps(1) [of self request] Pair assms(3) by simp
  show ?thesis
    using render_GET_match_raises [of self request s self1 full_path e] Pair s assms(2) m
    by simp
qed

section \<open>Facts about the example resource\<close>

lemma example_request_sel [simp]:
  "rmethod (example_request m u c) = m"
  "uri (example_request m u c) = u"
  "received_cookies (example_request m u c) = c"
  "rtemplate (example_request m u c) = None"
  "code (example_request m u c) = 200"
  "written (example_request m u c) = []"
  "finish_calls (example_request m u c) = 0"
  by (simp_all add: example_request_def)

lemma example_wap_sel [simp]:
  "default_session example_wap = Some example_session"
  "map_adapter example_wap = example_bind example_rules"
  "session_cache example_wap = Map.empty"
  "realm_name example_wap = Some ''realm1''"
  "session_calls (wworker example_wap) = []"
  "next_object (wworker example_wap) = 1"
  "wamp_backend (wworker example_wap) = example_backend"
  "router_session_factory (wworker example_wap) =
     [(example_session, Router (Some ''router1''), ''anonymous'')]"
  "call_trace (wworker example_wap) = [EvAdd example_session]"
  by (simp_all add: example_wap_def example_worker_def)

lemma decode_ascii_paths:
  "decode_utf8 ''/wap/hello'' = Inr ''/wap/hello''"
  "decode_utf8 ''/wap/nope'' = Inr ''/wap/nope''"
  "decode_utf8 ''/wap/submit'' = Inr ''/wap/submit''"
  "decode_utf8 ''/wap/none'' = Inr ''/wap/none''"
  "decode_utf8 ''/wap/boom'' = Inr ''/wap/boom''"
  "decode_utf8 ''/wap/down'' = Inr ''/wap/down''"
  "decode_utf8 ''/wap/lost'' = Inr ''/wap/lost''"
  by (simp_all add: decode_utf8_def)

lemma example_match:
  "example_bind example_rules ''/wap/nope'' = Inl NotFound"
  "example_bind example_rules ''/wap/submit'' = Inl MethodNotAllowed"
  "example_bind example_rules ''/wap/hello'' = Inr ((''com.example.hello'', hello_template), [])"
  "example_bind example_rules ''/wap/none'' = Inr ((''com.example.none'', hello_template), [])"
  "example_bind example_rules ''/wap/boom'' = Inr ((''com.example.boom'', hello_template), [])"
  "example_bind example_rules ''/wap/down'' = Inr ((''com.example.down'', hello_template), [])"
  "example_bind example_rules ''/wap/lost'' = Inr ((''com.example.lost'', hello_template), [])"
  by (simp_all add: example_rules_def)

lemma WapResource_init_state:
  assumes "WapResource_init get_template bind wk cfg path = Inr self"
  shows "default_session self = Some \<lparr>sid = next_object wk, realm = wamp_realm cfg\<rparr>
       \<and> router_session_factory (wworker self) =
           router_session_factory wk @
           [(\<lparr>sid = next_object wk, realm = wamp_realm cfg\<rparr>,
             Router (router_factory wk (wamp_realm cfg)), ''anonymous'')]
       \<and> session_cache self = Map.empty
       \<and> realm_name self = wamp_realm cfg"
  using assms
  by (auto simp: WapResource_init_def ApplicationSession_def factory_add_def Let_def
      split: sum.splits)

lemma render_GET_keeps_default_session:
  "default_session (fst (snd (render_GET self request))) = default_session self"
  using resolve_session_keeps(2) [of self request]
  by (auto simp: render_GET_def session_call_def adapter_match_def Let_def
      handle_exception_request split: prod.splits option.splits sum.splits)

lemma example_wap_constructed:
  "WapResource_init example_get_template example_bind example_worker example_config ''wap'' =
     Inr example_wap"
  by (simp add: WapResource_init_def example_get_template_def example_worker_def
      example_config_def example_wap_def ApplicationSession_def factory_add_def
      example_session_def example_rules_def)

section \<open>The resolve contract\<close>

text \<open>
  Claim C4, as amended. Session resolution returns the shared default handle when the
  request carries no session cookie or an empty one, and leaves the resource as it is.
  For a non-empty token that is cached it returns the cached handle and registers
  nothing. For a non-empty token that is not cached it creates a new handle for the
  configured realm, adds it to the session factory with the role anonymous, stores it
  under the token and returns it; a second resolution of the same request then returns
  that handle and changes nothing.
\<close>

theorem C4_resolve_contract:
  "(received_cookies request ''session_cookie'' = None \<or>
    received_cookies request ''session_cookie'' = Some [] \<longrightarrow>
      resolve_session self request = (default_session self, self))
   \<and> (\<forall>cookie s.
         received_cookies request ''session_cookie'' = Some cookie \<and> cookie \<noteq> [] \<and>
         session_cache self cookie = Some s \<longrightarrow>
           resolve_session self request = (Some s, self))
   \<and> (\<forall>cookie.
         received_cookies request ''session_cookie'' = Some cookie \<and> cookie \<noteq> [] \<and>
         session_cache self cookie = None \<longrightarrow>
           (let s = \<lparr>sid = next_object (wworker self), realm = realm_name self\<rparr>;
                self' = snd (resolve_session self request)
            in fst (resolve_session self request) = Some s \<and>
               session_cache self' = (session_cache self)(cookie \<mapsto> s) \<and>
               router_session_factory (wworker self') =
                 router_session_factory (wworker self) @ [(s, NoRouter, ''anonymous'')] \<and>
               resolve_session self' request = (Some s, self')))"
proof (intro conjI allI impI)
  assume "received_cookies request ''session_cookie'' = None \<or>
          received_cookies request ''session_cookie'' = Some []"
  then show "resolve_session self request = (default_session self, self)"
    by (auto simp: resolve_session_def)
next
  fix cookie s
  assume "received_cookies request ''session_cookie'' = Some cookie \<and> cookie \<noteq> [] \<and>
          session_cache self cookie = Some s"
  then show "resolve_session self request = (Some s, self)"
    by (simp add: resolve_session_def)
next
  fix cookie
  assume a: "received_cookies request ''session_cookie'' = Some cookie \<and> cookie \<noteq> [] \<and>
             session_cache self cookie = None"
  let ?s = "\<lparr>sid = next_object (wworker self), realm = realm_name self\<rparr>"
  have r: "resolve_session self request =
      (Some ?s,
       self\<lparr>wworker := (wworker self)
               \<lparr>next_object := Suc (next_object (wworker self)),
                router_session_factory := router_session_factory (wworker self) @
                  [(?s, NoRouter, ''anonymous'')],
                call_trace := call_trace (wworker self) @ [EvAdd ?s]\<rparr>,
            session_cache := (session_cache self)(cookie \<mapsto> ?s)\<rparr>)"
    using a by (simp add: resolve_session_def ApplicationSession_def factory_add_def)
  have again: "resolve_session (snd (resolve_session self request)) request =
      (Some ?s, snd (resolve_session self request))"
    using a by (simp add: r) (simp add: resolve_session_def)
  show "let s = ?s; self' = snd (resolve_session self request)
        in fst (resolve_session self request) = Some s \<and>
           session_cache self' = (session_cache self)(cookie \<mapsto> s) \<and>
           router_session_factory (wworker self') =
             router_session_factory (wworker self) @ [(s, NoRouter, ''anonymous'')] \<and>
           resolve_session self' request = (Some s, self')"
    unfolding Let_def using again by (simp add: r)
qed

text \<open>
  The claim as stated (a token that is present but not cached gets a new handle) fails
  for the empty token: the cookie \<^verbatim>\<open>session_cookie=\<close> is present and not cached, and
  resolution returns the default handle without creating or registering anything.
\<close>

theorem C4_empty_token_gets_default:
  "received_cookies (example_request ''GET'' ''/wap/hello'' [''session_cookie'' \<mapsto> []])
     ''session_cookie'' = Some [] \<and>
   session_cache example_wap [] = None \<and>
   resolve_session example_wap
     (example_request ''GET'' ''/wap/hello'' [''session_cookie'' \<mapsto> []]) =
     (Some example_session, example_wap)"
  by (simp add: resolve_session_def)

text \<open>The three cases of the contract on the example resource: no cookie, a fresh token,
  a cached token.\<close>

theorem C4_resolve_contract_witness:
  "resolve_session example_wap (example_request ''GET'' ''/wap/hello'' Map.empty) =
     (Some example_session, example_wap) \<and>
   fst (resolve_session example_wap
     (example_request ''GET'' ''/wap/hello'' [''session_cookie'' \<mapsto> ''abc''])) =
     Some \<lparr>sid = 1, realm = Some ''realm1''\<rparr> \<and>
   resolve_session
     (example_wap\<lparr>session_cache := [''abc'' \<mapsto> \<lparr>sid = 7, realm = Some ''realm1''\<rparr>]\<rparr>)
     (example_request ''GET'' ''/wap/hello'' [''session_cookie'' \<mapsto> ''abc'']) =
     (Some \<lparr>sid = 7, realm = Some ''realm1''\<rparr>,
      example_wap\<lparr>session_cache := [''abc'' \<mapsto> \<lparr>sid = 7, realm = Some ''realm1''\<rparr>]\<rparr>)"
proof -
  let ?r0 = "example_request ''GET'' ''/wap/hello'' Map.empty"
  let ?r1 = "example_request ''GET'' ''/wap/hello'' [''session_cookie'' \<mapsto> ''abc'']"
  let ?w7 = "example_wap\<lparr>session_cache := [''abc'' \<mapsto> \<lparr>sid = 7, realm = Some ''realm1''\<rparr>]\<rparr>"
  have 1: "resolve_session example_wap ?r0 = (Some example_session, example_wap)"
    using C4_resolve_contract [of ?r0 example_wap] by simp
  have 2: "fst (resolve_session example_wap ?r1) = Some \<lparr>sid = 1, realm = Some ''realm1''\<rparr>"
    using C4_resolve_contract [of ?r1 example_wap] by (simp add: Let_def)
  have 3: "resolve_session ?w7 ?r1 = (Some \<lparr>sid = 7, realm = Some ''realm1''\<rparr>, ?w7)"
    using C4_resolve_contract [of ?r1 ?w7] by simp
  from 1 2 3 show ?thesis by simp
qed

section \<open>Order of session resolution, route matching and the call\<close>

lemma resolve_session_trace:
  "\<exists>pre. call_trace (wworker (snd (resolve_session self request))) =
           call_trace (wworker self) @ pre \<and>
         (pre = [] \<or> (\<exists>s. pre = [EvAdd s]))"
  by (rule resolve_session_cases [where self = self and request = request]) auto

lemma render_GET_trace:
  "\<exists>post. call_trace (wworker (fst (snd (render_GET self request)))) =
            call_trace (wworker (snd (resolve_session self request))) @ post \<and>
          (post = [] \<or> (\<exists>p. post = [EvMatch p]) \<or>
           (\<exists>p s procedure kw. post = [EvMatch p, EvCall s procedure kw]))"
proof (cases "resolve_session self request")
  case (Pair so self1)
  show ?thesis
  proof (cases so)
    case None
    with Pair show ?thesis by (simp add: render_GET_no_session)
  next
    case (Some s)
    note res = Pair [unfolded Some]
    show ?thesis
    proof (cases "decode_utf8 (uri request)")
      case (Inl e)
      with res show ?thesis by (simp add: render_GET_undecodable)
    next
      case (Inr p)
      show ?thesis
      proof (cases "map_adapter self1 p")
        case (Inl e)
        from render_GET_match_raises [OF res Inr Inl] res show ?thesis
          by (simp add: handle_exception_request)
      next
        case m: (Inr a)
        obtain procedure t kw where a: "a = ((procedure, t), kw)" by (cases a) auto
        show ?thesis
          using render_GET_matched [OF res Inr m [unfolded a]] res
          by (cases "wamp_backend (wworker self1) s procedure kw")
             (simp_all add: Let_def handle_exception_request)
      qed
    qed
  qed
qed

lemma render_GET_registry:
  "session_cache (fst (snd (render_GET self request))) =
     session_cache (snd (resolve_session self request))"
  "router_session_factory (wworker (fst (snd (render_GET self request)))) =
     router_session_factory (wworker (snd (resolve_session self request)))"
  by (auto simp: render_GET_def session_call_def adapter_match_def Let_def
      handle_exception_request split: prod.splits option.splits sum.splits)

lemma render_GET_unmatched_calls:
  assumes "decode_utf8 (uri request) = Inr p" and "map_adapter self p = Inl e"
  shows "session_calls (wworker (fst (snd (render_GET self request)))) =
           session_calls (wworker self)"
proof (cases "resolve_session self request")
  case (Pair so self1)
  have m: "map_adapter self1 p = Inl e"
    using resolve_session_keeps(1) [of self request] Pair assms(2) by simp
  have c: "session_calls (wworker self1) = session_calls (wworker self)"
    using resolve_session_keeps(4) [of self request] Pair by simp
  show ?thesis
  proof (cases so)
    case None
    with Pair c show ?thesis by (simp add: render_GET_no_session)
  next
    case (Some s)
    from render_GET_match_raises [OF Pair [unfolded Some] assms(1) m] c show ?thesis
      by (simp add: handle_exception_request)
  qed
qed

text \<open>
  Claim C3, as amended. For every request \<^verbatim>\<open>render_GET\<close> works in the order Received,
  Resolving, Matching, Calling. The calls it makes on its collaborators are: first those
  of session resolution (none, or the one \<^verbatim>\<open>add\<close> of a new session for a fresh non-empty
  token), then at most one \<^verbatim>\<open>match\<close>, then at most one \<^verbatim>\<open>call\<close>, which comes only after a
  \<^verbatim>\<open>match\<close>. The session cache and the registered sessions after the request are those
  that resolution alone leaves, whether or not the URI decodes and the path matches. A
  request whose path fails to match has therefore gone through session resolution, and
  it places no remote call.
\<close>

theorem C3_resolution_precedes_matching:
  "\<exists>pre post.
     call_trace (wworker (snd (resolve_session self request))) =
       call_trace (wworker self) @ pre \<and>
     call_trace (wworker (fst (snd (render_GET self request)))) =
       call_trace (wworker self) @ pre @ post \<and>
     (pre = [] \<or> (\<exists>s. pre = [EvAdd s])) \<and>
     (post = [] \<or> (\<exists>p. post = [EvMatch p]) \<or>
      (\<exists>p s procedure kw. post = [EvMatch p, EvCall s procedure kw])) \<and>
     session_cache (fst (snd (render_GET self request))) =
       session_cache (snd (resolve_session self request)) \<and>
     router_session_factory (wworker (fst (snd (render_GET self request)))) =
       router_session_factory (wworker (snd (resolve_session self request))) \<and>
     (\<forall>p e. decode_utf8 (uri request) = Inr p \<and> map_adapter self p = Inl e \<longrightarrow>
        session_calls (wworker (fst (snd (render_GET self request)))) =
          session_calls (wworker self))"
proof -
  from resolve_session_trace [of self request] obtain pre where
    pre: "call_trace (wworker (snd (resolve_session self request))) =
            call_trace (wworker self) @ pre"
      "pre = [] \<or> (\<exists>s. pre = [EvAdd s])"
    by blast
  from render_GET_trace [of self request] obtain post where
    post: "call_trace (wworker (fst (snd (render_GET self request)))) =
             call_trace (wworker (snd (resolve_session self request))) @ post"
      "post = [] \<or> (\<exists>p. post = [EvMatch p]) \<or>
       (\<exists>p s procedure kw. post = [EvMatch p, EvCall s procedure kw])"
    by blast
  have t: "call_trace (wworker (fst (snd (render_GET self request)))) =
             call_trace (wworker self) @ pre @ post"
    using pre(1) post(1) by simp
  have u: "\<forall>p e. decode_utf8 (uri request) = Inr p \<and> map_adapter self p = Inl e \<longrightarrow>
        session_calls (wworker (fst (snd (render_GET self request)))) =
          session_calls (wworker self)"
    using render_GET_unmatched_calls [of request _ self] by blast
  show ?thesis
    using pre t post(2) render_GET_registry [of self request] u by blast
qed

lemma resolve_fresh_example:
  "resolve_session example_wap
     (example_request m u [''session_cookie'' \<mapsto> ''abc'']) =
   (Some \<lparr>sid = 1, realm = Some ''realm1''\<rparr>,
    example_wap\<lparr>wworker := (wworker example_wap)
        \<lparr>next_object := 2,
         router_session_factory :=
           [(example_session, Router (Some ''router1''), ''anonymous''),
            (\<lparr>sid = 1, realm = Some ''realm1''\<rparr>, NoRouter, ''anonymous'')],
         call_trace := [EvAdd example_session, EvAdd \<lparr>sid = 1, realm = Some ''realm1''\<rparr>]\<rparr>,
      session_cache := [''abc'' \<mapsto> \<lparr>sid = 1, realm = Some ''realm1''\<rparr>]\<rparr>)"
  by (simp add: resolve_session_def ApplicationSession_def factory_add_def)

lemma unmatched_fresh_trace:
  "call_trace (wworker (fst (snd (render_GET example_wap
       (example_request ''GET'' ''/wap/nope'' [''session_cookie'' \<mapsto> ''abc''])))))  =
     [EvAdd example_session, EvAdd \<lparr>sid = 1, realm = Some ''realm1''\<rparr>, EvMatch ''/wap/nope'']"
proof -
  let ?r = "example_request ''GET'' ''/wap/nope'' [''session_cookie'' \<mapsto> ''abc'']"
  have d: "decode_utf8 (uri ?r) = Inr ''/wap/nope''" by (simp add: decode_ascii_paths)
  show ?thesis
    using render_GET_match_raises [OF resolve_fresh_example d, of NotFound]
    by (simp add: example_match handle_exception_request)
qed

text \<open>
  The claim as stated (matching comes before resolution, so a request that fails to
  match never touches the session registry) fails: a GET of an unknown path with the
  fresh cookie \<^verbatim>\<open>session_cookie=abc\<close> is answered NotFound by the adapter, and yet the
  token is now cached with a new session, which was added to the session factory.
\<close>

theorem C3_unmatched_request_registers_session:
  "map_adapter example_wap ''/wap/nope'' = Inl NotFound \<and>
   session_cache example_wap ''abc'' = None \<and>
   session_cache (fst (snd (render_GET example_wap
       (example_request ''GET'' ''/wap/nope'' [''session_cookie'' \<mapsto> ''abc''])))) ''abc'' =
     Some \<lparr>sid = 1, realm = Some ''realm1''\<rparr> \<and>
   router_session_factory (wworker (fst (snd (render_GET example_wap
       (example_request ''GET'' ''/wap/nope'' [''session_cookie'' \<mapsto> ''abc''])))))  =
     [(example_session, Router (Some ''router1''), ''anonymous''),
      (\<lparr>sid = 1, realm = Some ''realm1''\<rparr>, NoRouter, ''anonymous'')]"
  by (simp add: render_GET_registry resolve_fresh_example example_match)

text \<open>
  The amended statement at that request: the session is added before the path is
  matched, and no call follows. And at a request with the same cookie whose URI is not
  UTF-8: the session is added although the path is never matched.
\<close>

theorem C3_resolution_precedes_matching_witness:
  "call_trace (wworker example_wap) = [EvAdd example_session] \<and>
   call_trace (wworker (fst (snd (render_GET example_wap
       (example_request ''GET'' ''/wap/nope'' [''session_cookie'' \<mapsto> ''abc''])))))  =
     [EvAdd example_session, EvAdd \<lparr>sid = 1, realm = Some ''realm1''\<rparr>, EvMatch ''/wap/nope''] \<and>
   call_trace (wworker (fst (snd (render_GET example_wap
       (example_request ''GET'' (''/wap/'' @ [CHR 0xFF]) [''session_cookie'' \<mapsto> ''abc''])))))  =
     [EvAdd example_session, EvAdd \<lparr>sid = 1, realm = Some ''realm1''\<rparr>] \<and>
   session_calls (wworker (fst (snd (render_GET example_wap
       (example_request ''GET'' ''/wap/nope'' [''session_cookie'' \<mapsto> ''abc''])))))  = []"
proof -
  let ?r = "example_request ''GET'' ''/wap/nope'' [''session_cookie'' \<mapsto> ''abc'']"
  let ?u = "example_request ''GET'' (''/wap/'' @ [CHR 0xFF]) [''session_cookie'' \<mapsto> ''abc'']"
  have d: "decode_utf8 (uri ?r) = Inr ''/wap/nope''" by (simp add: decode_ascii_paths)
  have m: "map_adapter example_wap ''/wap/nope'' = Inl NotFound" by (simp add: example_match)
  from C3_resolution_precedes_matching [of example_wap ?r] d m
  have c: "session_calls (wworker (fst (snd (render_GET example_wap ?r)))) = []"
    by auto
  have e: "decode_utf8 (uri ?u) = Inl UnicodeDecodeError" by (simp add: decode_utf8_def)
  have v: "call_trace (wworker (fst (snd (render_GET example_wap ?u)))) =
      [EvAdd example_session, EvAdd \<lparr>sid = 1, realm = Some ''realm1''\<rparr>]"
    using render_GET_undecodable [OF resolve_fresh_example e] by simp
  show ?thesis using c v unmatched_fresh_trace by simp
qed

section \<open>Routing failures\<close>

text \<open>
  Claim C5, as amended. For a resource with its default session in place and a request
  whose URI decodes as UTF-8 to a path for which the map adapter raises NotFound,
  \<^verbatim>\<open>render_GET\<close> returns the rendered error page for the unknown path, sets the status
  404, writes nothing itself, and places no remote call.
\<close>

theorem C5_unmatched_path_404:
  assumes "default_session self \<noteq> None"
    and "decode_utf8 (uri request) = Inr full_path"
    and "map_adapter self full_path = Inl NotFound"
  shows "fst (render_GET self request) =
           Rendered (render_error ''path not found [werkzeug.routing.MapAdapter.match]'')
       \<and> code (snd (snd (render_GET self request))) = 404
       \<and> written (snd (snd (render_GET self request))) = written request
       \<and> session_calls (wworker (fst (snd (render_GET self request)))) =
           session_calls (wworker self)"
  using render_GET_match_raises_default [OF assms]
  by (simp add: handle_exception_def resolve_session_keeps)

text \<open>An unknown path on the example resource.\<close>

theorem C5_unmatched_path_404_witness:
  "default_session example_wap \<noteq> None \<and>
   decode_utf8 (uri (example_request ''GET'' ''/wap/nope'' Map.empty)) = Inr ''/wap/nope'' \<and>
   map_adapter example_wap ''/wap/nope'' = Inl NotFound \<and>
   fst (render_GET example_wap (example_request ''GET'' ''/wap/nope'' Map.empty)) =
     Rendered (render_error ''path not found [werkzeug.routing.MapAdapter.match]'') \<and>
   code (snd (snd (render_GET example_wap (example_request ''GET'' ''/wap/nope'' Map.empty)))) = 404 \<and>
   session_calls (wworker (fst (snd (render_GET example_wap
      (example_request ''GET'' ''/wap/nope'' Map.empty))))) = []"
proof -
  let ?r = "example_request ''GET'' ''/wap/nope'' Map.empty"
  have a: "default_session example_wap \<noteq> None" by simp
  have d: "decode_utf8 (uri ?r) = Inr ''/wap/nope''" by (simp add: decode_ascii_paths)
  have m: "map_adapter example_wap ''/wap/nope'' = Inl NotFound" by (simp add: example_match)
  show ?thesis using a d m C5_unmatched_path_404 [OF a d m] by simp
qed

text \<open>
  The claim as stated (every request whose path matches no route is answered 404) fails
  for a URI that is not UTF-8. Line 206 decodes the URI outside the \<^verbatim>\<open>try\<close>: the request
  for \<^verbatim>\<open>/wap/\xff\<close>, which is the URL of no route, makes \<^verbatim>\<open>render_GET\<close> raise
  UnicodeDecodeError with the status still at 200, and the framework answers 500.
\<close>

theorem C5_undecodable_uri_not_404:
  "(''/wap/'' @ [CHR 0xFF]) \<notin> set (map rule_url example_rules) \<and>
   decode_utf8 (''/wap/'' @ [CHR 0xFF]) = Inl UnicodeDecodeError \<and>
   fst (render_GET example_wap (example_request ''GET'' (''/wap/'' @ [CHR 0xFF]) Map.empty)) =
     Raised UnicodeDecodeError \<and>
   code (snd (snd (render_GET example_wap
      (example_request ''GET'' (''/wap/'' @ [CHR 0xFF]) Map.empty)))) = 200 \<and>
   code (snd (Request_process example_site example_wap
      (example_request ''GET'' (''/wap/'' @ [CHR 0xFF]) Map.empty))) = 500"
proof -
  let ?r = "example_request ''GET'' (''/wap/'' @ [CHR 0xFF]) Map.empty"
  have n: "(''/wap/'' @ [CHR 0xFF]) \<notin> set (map rule_url example_rules)"
    by (simp add: example_rules_def)
  have e: "decode_utf8 (uri ?r) = Inl UnicodeDecodeError" by (simp add: decode_utf8_def)
  have res: "resolve_session example_wap ?r = (Some example_session, example_wap)"
    by (simp add: resolve_session_no_cookie)
  have g: "render_GET example_wap ?r = (Raised UnicodeDecodeError, example_wap, ?r)"
    by (rule render_GET_undecodable [OF res e])
  have p: "code (snd (Request_process example_site example_wap ?r)) = 500"
    using g by (simp add: Request_process_def Resource_render_def processingFailed_def)
  from n e g p show ?thesis by simp
qed

lemma render_GET_method_not_allowed:
  assumes "default_session self \<noteq> None"
    and "decode_utf8 (uri request) = Inr full_path"
    and "map_adapter self full_path = Inl MethodNotAllowed"
  shows "fst (render_GET self request) =
           Rendered (render_error ''method not allowed [werkzeug.routing.MapAdapter.match]'')
       \<and> code (snd (snd (render_GET self request))) = 511
       \<and> session_calls (wworker (fst (snd (render_GET self request)))) =
           session_calls (wworker self)"
  using render_GET_match_raises_default [OF assms]
  by (simp add: handle_exception_def resolve_session_keeps)

text \<open>
  Claim C6 says that a path whose route does not allow the method is answered with a
  client-error status. The \<^verbatim>\<open>except MethodNotAllowed\<close> branch sets 511, which is not a
  4xx code: a GET of the route configured for POST returns the rendered error page with
  status 511 (and places no call).
\<close>

theorem C6_wrong_method_gives_511:
  "map_adapter example_wap ''/wap/submit'' = Inl MethodNotAllowed \<and>
   fst (render_GET example_wap (example_request ''GET'' ''/wap/submit'' Map.empty)) =
     Rendered (render_error ''method not allowed [werkzeug.routing.MapAdapter.match]'') \<and>
   code (snd (snd (render_GET example_wap (example_request ''GET'' ''/wap/submit'' Map.empty)))) = 511 \<and>
   \<not> client_error
       (code (snd (snd (render_GET example_wap (example_request ''GET'' ''/wap/submit'' Map.empty))))) \<and>
   session_calls (wworker (fst (snd (render_GET example_wap
      (example_request ''GET'' ''/wap/submit'' Map.empty))))) = []"
proof -
  let ?r = "example_request ''GET'' ''/wap/submit'' Map.empty"
  have a: "default_session example_wap \<noteq> None" by simp
  have d: "decode_utf8 (uri ?r) = Inr ''/wap/submit''" by (simp add: decode_ascii_paths)
  have m: "map_adapter example_wap ''/wap/submit'' = Inl MethodNotAllowed"
    by (simp add: example_match)
  show ?thesis using m render_GET_method_not_allowed [OF a d m] by (simp add: client_error_def)
qed

section \<open>Rendering the result of the call\<close>







section \<open>Failures of the call\<close>

lemma escape_char_safe:
  "CHR ''<'' \<notin> set (escape_char c)"
  "CHR ''>'' \<notin> set (escape_char c)"
  "CHR 0x22 \<notin> set (escape_char c)"
  by (simp_all add: escape_char_def)

lemma escape_safe:
  "CHR ''<'' \<notin> set (escape s) \<and> CHR ''>'' \<notin> set (escape s) \<and> CHR 0x22 \<notin> set (escape s)"
  by (induction s) (simp_all add: escape_def escape_char_safe)

lemma escape_plain:
  "escape ''boom'' = ''boom''"
  by (simp add: escape_def escape_char_def)

text \<open>
  A call that fails with an exception carrying an error text is answered as the spec
  says: status 500, the fixed error shell around the escaped text and nothing else, one
  \<^verbatim>\<open>finish()\<close>.
\<close>

lemma call_failure_with_error_text:
  assumes "rmethod request = ''GET''"
    and "resolve_session self request = (Some s, self1)"
    and "decode_utf8 (uri request) = Inr full_path"
    and "map_adapter self full_path = Inr ((procedure, t), kw)"
    and "wamp_backend (wworker self) s procedure kw = Inr (Failure (Some error))"
  shows "code (snd (Request_process st self request)) = 500
       \<and> written (snd (Request_process st self request)) =
           written request @ [encode_utf8 (error_shell_head @ escape error @ error_shell_tail)]
       \<and> finish_calls (snd (Request_process st self request)) = Suc (finish_calls request)"
  using Request_process_called [OF assms, of st]
  by (simp add: deferred_fire_def after_call_error_def render_error_def)

lemma call_failure_boom:
  "code (snd (Request_process example_site example_wap
      (example_request ''GET'' ''/wap/boom'' Map.empty))) = 500 \<and>
   written (snd (Request_process example_site example_wap
      (example_request ''GET'' ''/wap/boom'' Map.empty))) =
     [error_shell_head @ ''boom'' @ error_shell_tail]"
proof -
  let ?r = "example_request ''GET'' ''/wap/boom'' Map.empty"
  have 1: "rmethod ?r = ''GET''" by simp
  have 2: "resolve_session example_wap ?r = (Some example_session, example_wap)"
    by (simp add: resolve_session_no_cookie)
  have 3: "decode_utf8 (uri ?r) = Inr ''/wap/boom''" by (simp add: decode_ascii_paths)
  have 4: "map_adapter example_wap ''/wap/boom'' =
      Inr ((''com.example.boom'', hello_template), [])"
    by (simp add: example_match)
  have 5: "wamp_backend (wworker example_wap) example_session ''com.example.boom'' [] =
      Inr (Failure (Some ''boom''))"
    by (simp add: example_backend_def)
  show ?thesis
    using call_failure_with_error_text [OF 1 2 3 4 5, of example_site]
    by (simp add: encode_utf8_def escape_plain)
qed

lemma lost_call_request:
  "snd (Request_process example_site example_wap
      (example_request ''GET'' ''/wap/lost'' Map.empty)) =
   setResponseCode 500
     ((example_request ''GET'' ''/wap/lost'' Map.empty)\<lparr>rtemplate := Some hello_template\<rparr>)"
proof -
  let ?r = "example_request ''GET'' ''/wap/lost'' Map.empty"
  have 1: "rmethod ?r = ''GET''" by simp
  have 2: "resolve_session example_wap ?r = (Some example_session, example_wap)"
    by (simp add: resolve_session_no_cookie)
  have 3: "decode_utf8 (uri ?r) = Inr ''/wap/lost''" by (simp add: decode_ascii_paths)
  have 4: "map_adapter example_wap ''/wap/lost'' =
      Inr ((''com.example.lost'', hello_template), [])"
    by (simp add: example_match)
  have 5: "wamp_backend (wworker example_wap) example_session ''com.example.lost'' [] =
      Inr (Failure None)"
    by (simp add: example_backend_def)
  show ?thesis
    using Request_process_called [OF 1 2 3 4 5, of example_site]
    by (simp add: deferred_fire_def after_call_error_without_text)
qed

text \<open>
  Claim C8 says that every call that completes with a failure is answered with status
  500 and the error shell around the escaped error text. \<^verbatim>\<open>_after_call_error\<close> reads
  \<^verbatim>\<open>error.value.error\<close> after it has set the status: when the call fails with an exception
  that has no attribute \<^verbatim>\<open>error\<close>, the errback raises there, and the response has the
  status 500 but no body: nothing is written.
\<close>

theorem C8_failure_without_error_text_has_no_body:
  "wamp_backend (wworker example_wap) example_session ''com.example.lost'' [] =
     Inr (Failure None) \<and>
   after_call_error example_wap None (example_request ''GET'' ''/wap/lost'' Map.empty) =
     (Some AttributeError, setResponseCode 500 (example_request ''GET'' ''/wap/lost'' Map.empty)) \<and>
   code (snd (Request_process example_site example_wap
      (example_request ''GET'' ''/wap/lost'' Map.empty))) = 500 \<and>
   written (snd (Request_process example_site example_wap
      (example_request ''GET'' ''/wap/lost'' Map.empty))) = []"
  by (simp add: lost_call_request after_call_error_without_text example_backend_def)

section \<open>How often a response is finished\<close>

text \<open>
  Claim C2 says that \<^verbatim>\<open>finish()\<close> is called exactly once on every request, whatever
  path it takes. That holds on every path but one (\<open>Request_process_finish_calls\<close>).
  When the call fails with an exception that has no attribute \<^verbatim>\<open>error\<close>,
  \<^verbatim>\<open>_after_call_error\<close> raises before it reaches \<^verbatim>\<open>request.finish()\<close>, and nothing else
  finishes the request: the count of \<^verbatim>\<open>finish()\<close> calls stays at 0.
\<close>

theorem C2_failure_without_error_text_never_finished:
  "fst (Resource_render example_wap (example_request ''GET'' ''/wap/lost'' Map.empty)) =
     NOT_DONE_YET (Failure None) \<and>
   finish_calls (example_request ''GET'' ''/wap/lost'' Map.empty) = 0 \<and>
   finish_calls (snd (Request_process example_site example_wap
      (example_request ''GET'' ''/wap/lost'' Map.empty))) = 0"
proof -
  let ?r = "example_request ''GET'' ''/wap/lost'' Map.empty"
  have 2: "resolve_session example_wap ?r = (Some example_session, example_wap)"
    by (simp add: resolve_session_no_cookie)
  have 3: "decode_utf8 (uri ?r) = Inr ''/wap/lost''" by (simp add: decode_ascii_paths)
  have 4: "map_adapter example_wap ''/wap/lost'' =
      Inr ((''com.example.lost'', hello_template), [])"
    by (simp add: example_match)
  have "fst (Resource_render example_wap ?r) = NOT_DONE_YET (Failure None)"
    using render_GET_matched [OF 2 3 4]
    by (simp add: Resource_render_def example_backend_def Let_def)
  then show ?thesis by (simp add: lost_call_request)
qed

text \<open>The other paths on the example resource: the call that raises at once (the
  unexpected exception), the unknown path, the failure with an error text.\<close>

lemma finished_once_examples:
  "finish_calls (snd (Request_process example_site example_wap
      (example_request ''GET'' ''/wap/down'' Map.empty))) = 1"
  "finish_calls (snd (Request_process example_site example_wap
      (example_request ''GET'' ''/wap/nope'' Map.empty))) = 1"
  "finish_calls (snd (Request_process example_site example_wap
      (example_request ''GET'' ''/wap/boom'' Map.empty))) = 1"
proof -
  have r: "resolve_session example_wap (example_request ''GET'' u Map.empty) =
      (Some example_session, example_wap)" for u
    by (simp add: resolve_session_no_cookie)
  have d: "fst (Resource_render example_wap (example_request ''GET'' ''/wap/down'' Map.empty))
      \<noteq> NOT_DONE_YET (Failure None)"
    using render_GET_matched [OF r, of "''/wap/down''" "''/wap/down''"
        "''com.example.down''" hello_template "[]"]
    by (simp add: Resource_render_def decode_ascii_paths example_match example_backend_def
        Let_def handle_exception_def)
  have n: "fst (Resource_render example_wap (example_request ''GET'' ''/wap/nope'' Map.empty))
      \<noteq> NOT_DONE_YET (Failure None)"
    using render_GET_match_raises [OF r, of "''/wap/nope''" "''/wap/nope''" NotFound]
    by (simp add: Resource_render_def decode_ascii_paths example_match handle_exception_def)
  have b: "fst (Resource_render example_wap (example_request ''GET'' ''/wap/boom'' Map.empty))
      \<noteq> NOT_DONE_YET (Failure None)"
    using render_GET_matched [OF r, of "''/wap/boom''" "''/wap/boom''"
        "''com.example.boom''" hello_template "[]"]
    by (simp add: Resource_render_def decode_ascii_paths example_match example_backend_def
        Let_def)
  show "finish_calls (snd (Request_process example_site example_wap
      (example_request ''GET'' ''/wap/down'' Map.empty))) = 1"
    using Request_process_finish_calls [OF d, of example_site] by simp
  show "finish_calls (snd (Request_process example_site example_wap
      (example_request ''GET'' ''/wap/nope'' Map.empty))) = 1"
    using Request_process_finish_calls [OF n, of example_site] by simp
  show "finish_calls (snd (Request_process example_site example_wap
      (example_request ''GET'' ''/wap/boom'' Map.empty))) = 1"
    using Request_process_finish_calls [OF b, of example_site] by simp
qed

section \<open>Which methods reach the pipeline\<close>

text \<open>
  Claim C10, as amended. The resource handles GET requests and, through the
  \<^verbatim>\<open>render_HEAD\<close> it inherits from the base class, HEAD requests. A request with any
  other method never enters \<^verbatim>\<open>render_GET\<close>: \<^verbatim>\<open>Resource.render\<close> raises UnsupportedMethod
  and the resource and the request are untouched (no session resolution, no route
  matching, no call), whatever the routes of the resource are.
\<close>

theorem C10_other_methods_never_enter:
  assumes "rmethod request \<noteq> ''GET''" and "rmethod request \<noteq> ''HEAD''"
  shows "Resource_render self request = (Raised UnsupportedMethod, self, request)
       \<and> fst (Request_process st self request) = self"
  using assms by (simp add: Resource_render_def Request_process_def)

text \<open>A POST to the route that is configured for POST.\<close>

theorem C10_other_methods_never_enter_witness:
  "''POST'' \<noteq> ''GET'' \<and> ''POST'' \<noteq> ''HEAD'' \<and>
   Resource_render example_wap (example_request ''POST'' ''/wap/submit'' Map.empty) =
     (Raised UnsupportedMethod, example_wap, example_request ''POST'' ''/wap/submit'' Map.empty)"
proof -
  let ?r = "example_request ''POST'' ''/wap/submit'' Map.empty"
  have 1: "rmethod ?r \<noteq> ''GET''" by simp
  have 2: "rmethod ?r \<noteq> ''HEAD''" by simp
  show ?thesis using C10_other_methods_never_enter [OF 1 2, of example_wap example_site] by simp
qed

text \<open>
  The claim as stated (only GET requests are handled) fails for HEAD: a HEAD request
  for a routed path goes through \<^verbatim>\<open>render_GET\<close> and places the remote call.
\<close>

theorem C10_head_enters_pipeline:
  "rmethod (example_request ''HEAD'' ''/wap/hello'' Map.empty) \<noteq> ''GET'' \<and>
   session_calls (wworker example_wap) = [] \<and>
   fst (Resource_render example_wap (example_request ''HEAD'' ''/wap/hello'' Map.empty)) =
     NOT_DONE_YET (Success (RMapping [(''name'', ''Ann'')])) \<and>
   session_calls (wworker (fst (snd (Resource_render example_wap
      (example_request ''HEAD'' ''/wap/hello'' Map.empty))))) =
     [(example_session, ''com.example.hello'', [])]"
proof -
  let ?r = "example_request ''HEAD'' ''/wap/hello'' Map.empty"
  have 2: "resolve_session example_wap ?r = (Some example_session, example_wap)"
    by (simp add: resolve_session_no_cookie)
  have 3: "decode_utf8 (uri ?r) = Inr ''/wap/hello''" by (simp add: decode_ascii_paths)
  have 4: "map_adapter example_wap ''/wap/hello'' =
      Inr ((''com.example.hello'', hello_template), [])"
    by (simp add: example_match)
  show ?thesis
    using render_GET_matched [OF 2 3 4]
    by (simp add: Resource_render_def render_HEAD_def example_backend_def Let_def)
qed

section \<open>The branch for a missing session\<close>

text \<open>
  \<^verbatim>\<open>render_GET\<close> tests the resolved session for truth and, when it is falsy, returns the
  rendered error page; this branch does not set a status code
  (\<open>render_GET_no_session\<close>). No constructed resource reaches it: the constructor puts the
  default session in place (\<open>WapResource_init_state\<close>), \<^verbatim>\<open>render_GET\<close> never changes it
  (\<open>render_GET_keeps_default_session\<close>), and with the default session in place session
  resolution always returns a session (\<open>resolve_session_usable\<close>).
\<close>

lemma constructed_resource_resolves:
  assumes "WapResource_init get_template bind wk cfg path = Inr self"
  shows "fst (resolve_session self request) \<noteq> None
       \<and> fst (resolve_session (fst (snd (render_GET self request))) request') \<noteq> None"
proof -
  have d: "default_session self \<noteq> None"
    using WapResource_init_state [OF assms] by simp
  then have "default_session (fst (snd (render_GET self request))) \<noteq> None"
    by (simp add: render_GET_keeps_default_session)
  with d show ?thesis by (simp add: resolve_session_usable)
qed

end
